theory Spec2Isabelle
  imports Complex_Main
begin

text \<open>
  An embedding of the event chat handler (\<^verbatim>\<open>chat\<close> in the chat controller), of the event
  and registration services and of the duplicate removal of the discovery flow.

  One turn is one run of the handler; turns of a session run one after the other. A store
  is the list of its documents: a read is a query on the list, and a write fails when a
  schema validator rejects the document or when the database refuses it, which the model
  takes from the environment of the turn. The language-model and parsing services are
  functions of that environment as well, so a statement about every environment is a
  statement about every answer they can give.
\<close>

section \<open>JavaScript strings\<close>

text \<open>
  A string is a \<^typ>\<open>string\<close>, a list of 8-bit characters; a character stands for the
  code point of the same number, U+0000 to U+00FF, which is one UTF-16 unit, so \<open>length\<close>
  is \<^verbatim>\<open>.length\<close> and \<open>!\<close> is \<^verbatim>\<open>charAt\<close>. The source calls \<^verbatim>\<open>toLowerCase\<close>, \<^verbatim>\<open>trim\<close>,
  \<^verbatim>\<open>startsWith\<close>, \<^verbatim>\<open>includes\<close> (here \<open>includesStr\<close>) and \<^verbatim>\<open>replace(/[...]/g, '')\<close>.
  On this range \<^verbatim>\<open>toLowerCase\<close> adds 32 to the capitals \<^verbatim>\<open>A-Z\<close> and to the Latin-1
  capitals U+00C0 to U+00DE except the multiplication sign U+00D7, and changes nothing
  else; \<^verbatim>\<open>trim\<close> removes the characters U+0009 to U+000D, the space and the no-break
  space.
\<close>

definition isWhiteSpace :: "char \<Rightarrow> bool" where
  "isWhiteSpace c =
     (c \<in> set [CHR 0x09, CHR 0x0A, CHR 0x0B, CHR 0x0C, CHR 0x0D, CHR 0x20, CHR 0xA0])"

definition trim :: "string \<Rightarrow> string" where
  "trim s = rev (dropWhile isWhiteSpace (rev (dropWhile isWhiteSpace s)))"

definition upperCase :: string where
  "upperCase =
     ''ABCDEFGHIJKLMNOPQRSTUVWXYZ'' @
     [CHR 0xC0, CHR 0xC1, CHR 0xC2, CHR 0xC3, CHR 0xC4, CHR 0xC5, CHR 0xC6, CHR 0xC7,
      CHR 0xC8, CHR 0xC9, CHR 0xCA, CHR 0xCB, CHR 0xCC, CHR 0xCD, CHR 0xCE, CHR 0xCF,
      CHR 0xD0, CHR 0xD1, CHR 0xD2, CHR 0xD3, CHR 0xD4, CHR 0xD5, CHR 0xD6, CHR 0xD8,
      CHR 0xD9, CHR 0xDA, CHR 0xDB, CHR 0xDC, CHR 0xDD, CHR 0xDE]"

definition lowerCase :: string where
  "lowerCase =
     ''abcdefghijklmnopqrstuvwxyz'' @
     [CHR 0xE0, CHR 0xE1, CHR 0xE2, CHR 0xE3, CHR 0xE4, CHR 0xE5, CHR 0xE6, CHR 0xE7,
      CHR 0xE8, CHR 0xE9, CHR 0xEA, CHR 0xEB, CHR 0xEC, CHR 0xED, CHR 0xEE, CHR 0xEF,
      CHR 0xF0, CHR 0xF1, CHR 0xF2, CHR 0xF3, CHR 0xF4, CHR 0xF5, CHR 0xF6, CHR 0xF8,
      CHR 0xF9, CHR 0xFA, CHR 0xFB, CHR 0xFC, CHR 0xFD, CHR 0xFE]"

definition toLowerChar :: "char \<Rightarrow> char" where
  "toLowerChar c = (case map_of (zip upperCase lowerCase) c of Some d \<Rightarrow> d | None \<Rightarrow> c)"

definition toLowerCase :: "string \<Rightarrow> string" where
  "toLowerCase s = map toLowerChar s"

definition startsWith :: "string \<Rightarrow> string \<Rightarrow> bool" where
  "startsWith s p = (take (length p) s = p)"

fun includesStr :: "string \<Rightarrow> string \<Rightarrow> bool" where
  "includesStr [] p = (p = [])"
| "includesStr (c # cs) p = (startsWith (c # cs) p \<or> includesStr cs p)"

text \<open>\<^verbatim>\<open>s.replace(/[cs]/g, '')\<close> for a character class \<open>cs\<close>.\<close>

definition removeChars :: "string \<Rightarrow> string \<Rightarrow> string" where
  "removeChars cs s = filter (\<lambda>c. c \<notin> set cs) s"

text \<open>
  A value that is \<^verbatim>\<open>null\<close>, \<^verbatim>\<open>undefined\<close> or a string is a \<^typ>\<open>string option\<close>.
  JavaScript treats \<^verbatim>\<open>null\<close>, \<^verbatim>\<open>undefined\<close> and the empty string as false.
\<close>

definition truthy :: "string option \<Rightarrow> bool" where
  "truthy v = (case v of None \<Rightarrow> False | Some s \<Rightarrow> s \<noteq> [])"

text \<open>\<^verbatim>\<open>v || undefined\<close>: a false value becomes absent.\<close>

definition orUndefined :: "string option \<Rightarrow> string option" where
  "orUndefined v = (if truthy v then v else None)"

section \<open>The language model behind \<^verbatim>\<open>generateResponse\<close>\<close>

text \<open>
  The prompts the chat handler sends through \<^verbatim>\<open>generateResponse\<close> in the part of the
  handler that is embedded here. The text of a prompt is determined by the turn, so a
  turn's language model is a function from the prompt to the completion it returns;
  \<open>None\<close> is a failed request (time-out, non-2xx status, malformed body).
\<close>

datatype prompt =
    contextPrompt
  | confirmationPrompt
  | directUnderstandingPrompt
  | eventCardPrompt
  | errorPrompt
  | editPrompt
  | clarifyPrompt

definition DOMAIN_LOCK_MESSAGE :: string where
  "DOMAIN_LOCK_MESSAGE =
     ''I am designed exclusively to assist with event discovery, registration, and event-related actions on this platform. Please let me know how I can assist you with an event.''"

definition TECHNICAL_DIFFICULTIES :: string where
  "TECHNICAL_DIFFICULTIES =
     ''I'' @ [CHR 0x27] @ ''m experiencing technical difficulties. Please try again shortly.''"

text \<open>
  \<^verbatim>\<open>generateResponse\<close> (controllers/eventController.js, lines 706-877). Its whole body is
  inside \<^verbatim>\<open>try\<close>, and the handler returns the fixed apology, so the function never
  throws.
\<close>

definition generateResponse :: "(prompt \<Rightarrow> string option) \<Rightarrow> prompt \<Rightarrow> string" where
  "generateResponse completion p =
     (case completion p of
        None \<Rightarrow> TECHNICAL_DIFFICULTIES
      | Some content \<Rightarrow>
          (let reply = (if content = [] then DOMAIN_LOCK_MESSAGE else content)
           in if trim reply = trim DOMAIN_LOCK_MESSAGE
                 \<or> includesStr (toLowerCase reply) ''i am designed exclusively''
              then DOMAIN_LOCK_MESSAGE
              else reply))"

section \<open>Confirmation classification\<close>

text \<open>
  Lines 207-276 of the chat handler. The user has been shown a draft and was asked whether
  to edit it or to proceed. The first tier compares the normalised message with fixed
  tokens; only when no token matches is the language model asked, at most twice.
  The result carries the prompts that were sent, in order.

  The \<^verbatim>\<open>catch\<close> of lines 269-275 handles an exception of \<^verbatim>\<open>generateResponse\<close>, which
  never throws; the branch is unreachable and has no counterpart here.
\<close>

datatype confirmationIntent = proceed | edit | unclear

definition messageLower :: "string \<Rightarrow> string" where
  "messageLower message = trim (removeChars ''.,!?'' (trim (toLowerCase message)))"

definition positiveConfirmation :: "string \<Rightarrow> bool" where
  "positiveConfirmation m =
     (m = ''yes'' \<or> startsWith m ''yes '' \<or>
      includesStr m ''proceed'' \<or>
      m = ''ok'' \<or> m = ''okay'' \<or> m = ''sure'' \<or>
      m = ''confirm'' \<or> includesStr m ''go ahead'' \<or>
      includesStr m ''create it'')"

definition negativeConfirmation :: "string \<Rightarrow> bool" where
  "negativeConfirmation m =
     (m = ''no'' \<or> m = ''nope'' \<or> m = ''nah'' \<or> m = ''n'' \<or>
      m = ''no.'' \<or> m = ''no!'' \<or> m = ''no,'' \<or>
      startsWith m ''no '' \<or> startsWith m ''no.'' \<or> startsWith m ''no,'')"

definition classifyConfirmation ::
  "(prompt \<Rightarrow> string option) \<Rightarrow> string \<Rightarrow> confirmationIntent \<times> prompt list" where
  "classifyConfirmation completion message =
     (let m = messageLower message
      in if positiveConfirmation m then (proceed, [])
         else if negativeConfirmation m then (proceed, [])
         else
           (let responseLower = trim (toLowerCase (generateResponse completion confirmationPrompt))
            in if includesStr responseLower ''proceed'' then (proceed, [confirmationPrompt])
               else if includesStr responseLower ''edit'' then (edit, [confirmationPrompt])
               else
                 (let directLower =
                        trim (toLowerCase (generateResponse completion directUnderstandingPrompt))
                  in if includesStr directLower ''proceed''
                     then (proceed, [confirmationPrompt, directUnderstandingPrompt])
                     else if includesStr directLower ''edit''
                     then (edit, [confirmationPrompt, directUnderstandingPrompt])
                     else (unclear, [confirmationPrompt, directUnderstandingPrompt]))))"

text \<open>The second normalisation, of the fall-back at lines 474-476.\<close>

definition messageLowerFinal :: "string \<Rightarrow> string" where
  "messageLowerFinal message = trim (removeChars ''.,!?;:'' (trim (toLowerCase message)))"

definition finalFallbackNo :: "string \<Rightarrow> bool" where
  "finalFallbackNo m =
     (m = ''no'' \<or> m = ''nope'' \<or> m = ''nah'' \<or> m = ''n'' \<or>
      startsWith m ''no '' \<or> m = ''not'' \<or> m = ''nope.'')"

section \<open>Data model\<close>

text \<open>
  A \<^verbatim>\<open>Date\<close> is kept as its calendar day and its time of day;
  \<^verbatim>\<open>setHours(h, m, 0, 0)\<close> replaces the time of day. \<^verbatim>\<open>parseDateWithAI\<close> returns
  \<^verbatim>\<open>null\<close> or a valid date (services/aiExtractionService.js, lines 315-319 and 338), so an
  invalid date never reaches the handler.
\<close>

record jsDate =
  day :: int
  hours :: nat
  minutes :: nat

definition setHours :: "jsDate \<Rightarrow> nat \<Rightarrow> nat \<Rightarrow> jsDate" where
  "setHours d h m = d\<lparr>hours := h, minutes := m\<rparr>"

text \<open>
  The object handed to \<^verbatim>\<open>new Event(...)\<close>: one entry for each path of the schema
  (models/Event.js) that the chat handler and the search service write. Every object
  literal of the embedded code sets \<^verbatim>\<open>title\<close> and sets \<^verbatim>\<open>source\<close> to a string, so these two
  are plain strings here and the schema's default for a missing \<^verbatim>\<open>source\<close> is never
  taken. For the other paths, which have no default, a key that is missing, \<^verbatim>\<open>undefined\<close>
  or \<^verbatim>\<open>null\<close> is \<open>None\<close>.
\<close>

record EventData =
  title :: string
  category :: "string option"
  startDate :: "jsDate option"
  location :: "string option"
  mode :: "string option"
  price :: "string option"
  snippet :: "string option"
  source :: string
  sourceUrl :: "string option"
  userId :: "nat option"

text \<open>
  A stored event document. The schema trims \<^verbatim>\<open>title\<close>, \<^verbatim>\<open>category\<close> and \<^verbatim>\<open>location\<close>,
  defaults \<^verbatim>\<open>attendeesCount\<close> to 0, requires \<^verbatim>\<open>title\<close> and \<^verbatim>\<open>userId\<close>, sets
  \<^verbatim>\<open>createdAt\<close> to \<^verbatim>\<open>Date.now\<close> when the document is built and \<^verbatim>\<open>updatedAt\<close> to
  \<^verbatim>\<open>Date.now()\<close> when it is saved; the two readings of the clock are milliseconds.
  \<^verbatim>\<open>endDate\<close>, \<^verbatim>\<open>description\<close> and the coordinates are written by no code embedded here
  and are left out.
\<close>

record Event =
  ev_id :: nat
  ev_title :: string
  ev_category :: "string option"
  ev_startDate :: "jsDate option"
  ev_location :: "string option"
  ev_mode :: "string option"
  ev_price :: "string option"
  ev_snippet :: "string option"
  ev_source :: string
  ev_sourceUrl :: "string option"
  ev_userId :: nat
  ev_attendeesCount :: nat
  ev_createdAt :: int
  ev_updatedAt :: int

definition newObjectId :: "Event list \<Rightarrow> nat" where
  "newObjectId store = Suc (fold max (map ev_id store) 0)"

definition newEvent :: "nat \<Rightarrow> nat \<Rightarrow> int \<times> int \<Rightarrow> EventData \<Rightarrow> Event" where
  "newEvent i uid clock d =
     \<lparr> ev_id = i,
       ev_title = trim (title d),
       ev_category = map_option trim (category d),
       ev_startDate = startDate d,
       ev_location = map_option trim (location d),
       ev_mode = mode d,
       ev_price = price d,
       ev_snippet = snippet d,
       ev_source = source d,
       ev_sourceUrl = sourceUrl d,
       ev_userId = uid,
       ev_attendeesCount = 0,
       ev_createdAt = fst clock,
       ev_updatedAt = snd clock \<rparr>"

text \<open>
  The validators that \<^verbatim>\<open>event.save()\<close> runs: \<^verbatim>\<open>title\<close> and \<^verbatim>\<open>userId\<close> are required (an
  empty string fails \<^verbatim>\<open>required\<close>), \<^verbatim>\<open>mode\<close> and \<^verbatim>\<open>source\<close> are enumerations.
\<close>

definition validEventData :: "EventData \<Rightarrow> bool" where
  "validEventData d =
     (trim (title d) \<noteq> [] \<and> userId d \<noteq> None \<and>
      (case mode d of None \<Rightarrow> True | Some m \<Rightarrow> m \<in> set [''online'', ''offline'', ''hybrid'']) \<and>
      source d \<in> set [''user_created'', ''serpapi'', ''serper'', ''discovery''])"

text \<open>
  \<^verbatim>\<open>createEvent\<close> (services/eventService.js, lines 516-526). The store is the list of its
  documents. \<^verbatim>\<open>event.save()\<close> throws when a validator rejects the document or when the
  database refuses the write (\<open>dbAccepts\<close>, a fact of the turn's environment); the
  \<^verbatim>\<open>catch\<close> turns either into \<^verbatim>\<open>{ success: false, error: 'Failed to create event' }\<close>.
  \<open>clock\<close> holds the two readings of \<^verbatim>\<open>Date.now\<close>, at \<^verbatim>\<open>new Event\<close> and at \<^verbatim>\<open>save\<close>.
\<close>

definition createEvent ::
  "(EventData \<Rightarrow> bool) \<Rightarrow> int \<times> int \<Rightarrow> Event list \<Rightarrow> EventData
     \<Rightarrow> (string + Event) \<times> Event list" where
  "createEvent dbAccepts clock store eventData =
     (case userId eventData of
        Some uid \<Rightarrow>
          if validEventData eventData \<and> dbAccepts eventData
          then (let event = newEvent (newObjectId store) uid clock eventData
                in (Inr event, store @ [event]))
          else (Inl ''Failed to create event'', store)
      | None \<Rightarrow> (Inl ''Failed to create event'', store))"

text \<open>
  \<^verbatim>\<open>context.creatingEvent\<close>, with the keys that the confirmation turn reads.
  (\<^verbatim>\<open>serperDetails\<close>, \<^verbatim>\<open>missingInfo\<close>, \<^verbatim>\<open>top5Snippets\<close>, \<^verbatim>\<open>serperExtractedTime\<close> and
  \<^verbatim>\<open>serperExtractedLocation\<close> are stored by the draft step and read by no line of the
  confirmation turn.)
\<close>

record CreatingEvent =
  ce_title :: string
  waitingForConfirmation :: bool
  shownEventCard :: bool
  formattedDisplay :: string
  top5SnippetsSection :: "string option"
  top5LinksSection :: "string option"
  extractedDate :: "string option"
  extractedTime :: "string option"
  extractedLocation :: "string option"
  serperExtractedDate :: "string option"

record Context =
  creatingEvent :: "CreatingEvent option"
  lastEventIds :: "nat list option"
  lastSearchQuery :: "string option"

record UserLocation =
  city :: "string option"
  region :: "string option"

text \<open>The result of \<^verbatim>\<open>extractEventDetailsWithAI\<close>.\<close>

record ExtractedDetails =
  intent :: string
  eventTitle :: "string option"
  date :: "string option"
  time :: "string option"
  ed_location :: "string option"
  ed_category :: "string option"
  useUserLocation :: bool

text \<open>
  What the services outside the handler answer during one turn: the extraction service, the
  language model, the two date-parsing calls of a confirmation turn (the first parses the
  stored date, the second the web-extracted one), the time parser, the database, and the
  two readings of the clock that a created document records.
\<close>

record Env =
  extractEventDetailsWithAI :: ExtractedDetails
  completion :: "prompt \<Rightarrow> string option"
  parseDateWithAI :: "nat \<Rightarrow> string \<Rightarrow> jsDate option"
  parseTimeWithAI :: "string \<Rightarrow> (nat \<times> nat) option"
  dbAccepts :: "EventData \<Rightarrow> bool"
  clock :: "int \<times> int"

text \<open>The calls a turn makes to the services, in order.\<close>

datatype call =
    ExtractEventDetailsWithAI
  | GenerateResponse prompt
  | ParseDateWithAI string
  | ParseTimeWithAI string
  | CreateEvent EventData
  | SafeSaveConversation

section \<open>Intent resolution\<close>

text \<open>
  Lines 101-150 of the chat handler: the intent of the turn, the extracted details and the
  calls made. A context that waits for a confirmation forces \<^verbatim>\<open>'create'\<close> and sets
  \<^verbatim>\<open>extractedDetails = { intent: 'create', eventTitle: null }\<close>.
\<close>

definition isWaiting :: "Context \<Rightarrow> bool" where
  "isWaiting context =
     (case creatingEvent context of None \<Rightarrow> False | Some ce \<Rightarrow> waitingForConfirmation ce)"

definition resolveIntent :: "Env \<Rightarrow> Context \<Rightarrow> string \<times> ExtractedDetails \<times> call list" where
  "resolveIntent env context =
     (if isWaiting context
      then (''create'',
            \<lparr> intent = ''create'', eventTitle = None, date = None, time = None,
              ed_location = None, ed_category = None, useUserLocation = False \<rparr>,
            [])
      else
        (let extractedDetails = extractEventDetailsWithAI env;
             i = intent extractedDetails
         in if i = ''general'' \<and>
               (truthy (lastSearchQuery context) \<or>
                (case lastEventIds context of None \<Rightarrow> False | Some ids \<Rightarrow> length ids > 0) \<or>
                creatingEvent context \<noteq> None)
            then
              (let responseLower =
                     trim (toLowerCase (generateResponse (completion env) contextPrompt));
                   cs = [ExtractEventDetailsWithAI, GenerateResponse contextPrompt]
               in if includesStr responseLower ''discovery''
                  then (''discovery'', extractedDetails\<lparr>intent := ''discovery''\<rparr>, cs)
                  else if includesStr responseLower ''create''
                  then (''create'', extractedDetails\<lparr>intent := ''create''\<rparr>, cs)
                  else (i, extractedDetails, cs))
            else (i, extractedDetails, [ExtractEventDetailsWithAI])))"

section \<open>The confirmation turn\<close>

text \<open>
  What a turn leaves behind: the HTTP response (a reply is named by the prompt that produced
  its text; the text itself is the model's and is not embedded), the context of the
  conversation document that \<^verbatim>\<open>safeSaveConversation\<close> wrote (\<open>None\<close> when the turn
  saved nothing), the event store, and the calls made.
\<close>

datatype httpResponse = Json prompt bool | Status400 | Status500

record Turn =
  response :: httpResponse
  saved :: "Context option"
  stored :: "Event list"
  calls :: "call list"

text \<open>
  Lines 291-317 (and 494-511 of the fall-back, which repeats them): the stored date is
  parsed first, the web-extracted date only when the first gave no date. The second
  component is the list of calls.
\<close>

definition parseStored :: "Env \<Rightarrow> nat \<Rightarrow> string option \<Rightarrow> jsDate option \<times> call list" where
  "parseStored env k v =
     (case v of
        None \<Rightarrow> (None, [])
      | Some s \<Rightarrow>
          if s = [] then (None, [])
          else (parseDateWithAI env k (trim s), [ParseDateWithAI (trim s)]))"

definition finalEventDate :: "Env \<Rightarrow> CreatingEvent \<Rightarrow> jsDate option \<times> call list" where
  "finalEventDate env ce =
     (let (d1, c1) = parseStored env 1 (extractedDate ce)
      in case d1 of
           Some d \<Rightarrow> (Some d, c1)
         | None \<Rightarrow>
             (let (d2, c2) = parseStored env 2 (serperExtractedDate ce)
              in (d2, c1 @ c2)))"

datatype jsError = TypeError

text \<open>
  Lines 327-333: the stored time is parsed whenever it is present, and
  \<^verbatim>\<open>finalEventDate.setHours(...)\<close> is called on whatever \<^verbatim>\<open>finalEventDate\<close> holds;
  on \<^verbatim>\<open>null\<close> that is a \<^verbatim>\<open>TypeError\<close>.
\<close>

definition setTime ::
  "Env \<Rightarrow> CreatingEvent \<Rightarrow> jsDate option \<Rightarrow> (jsError + jsDate option) \<times> call list" where
  "setTime env ce d =
     (if truthy (extractedTime ce)
      then (case extractedTime ce of
              None \<Rightarrow> (Inr d, [])
            | Some t \<Rightarrow>
                (case parseTimeWithAI env t of
                   None \<Rightarrow> (Inr d, [ParseTimeWithAI t])
                 | Some (h, m) \<Rightarrow>
                     (case d of
                        None \<Rightarrow> (Inl TypeError, [ParseTimeWithAI t])
                      | Some dt \<Rightarrow> (Inr (Some (setHours dt h m)), [ParseTimeWithAI t]))))
      else (Inr d, []))"

text \<open>Lines 517-522, the fall-back: the time is parsed only when a date exists.\<close>

definition setTimeFallback ::
  "Env \<Rightarrow> CreatingEvent \<Rightarrow> jsDate option \<Rightarrow> jsDate option \<times> call list" where
  "setTimeFallback env ce d =
     (case d of
        None \<Rightarrow> (None, [])
      | Some dt \<Rightarrow>
          if truthy (extractedTime ce)
          then (case extractedTime ce of
                  None \<Rightarrow> (Some dt, [])
                | Some t \<Rightarrow>
                    (case parseTimeWithAI env t of
                       None \<Rightarrow> (Some dt, [ParseTimeWithAI t])
                     | Some (h, m) \<Rightarrow> (Some (setHours dt h m), [ParseTimeWithAI t])))
          else (Some dt, []))"

text \<open>
  Lines 337 and 524:
  \<^verbatim>\<open>savedExtractedLocation || (userLocation ? `${city || ''}, ${region || ''}`.trim() : null) || null\<close>.
\<close>

definition orEmpty :: "string option \<Rightarrow> string" where
  "orEmpty v = (case v of None \<Rightarrow> [] | Some s \<Rightarrow> s)"

definition finalLocation :: "CreatingEvent \<Rightarrow> UserLocation option \<Rightarrow> string option" where
  "finalLocation ce userLocation =
     (if truthy (extractedLocation ce) then extractedLocation ce
      else (case userLocation of
              None \<Rightarrow> None
            | Some ul \<Rightarrow>
                orUndefined (Some (trim (orEmpty (city ul) @ '', '' @ orEmpty (region ul))))))"

text \<open>Lines 339-347 and 526-532: the object literal handed to \<^verbatim>\<open>createEvent\<close>.\<close>

definition eventDataOf :: "CreatingEvent \<Rightarrow> jsDate option \<Rightarrow> string option \<Rightarrow> nat \<Rightarrow> EventData" where
  "eventDataOf ce d loc uid =
     \<lparr> title = ce_title ce,
       category = None,
       startDate = d,
       location = orUndefined loc,
       mode = None,
       price = None,
       snippet = None,
       source = ''user_created'',
       sourceUrl = None,
       userId = Some uid \<rparr>"

definition idsOf :: "Context \<Rightarrow> nat list" where
  "idsOf context = (case lastEventIds context of None \<Rightarrow> [] | Some ids \<Rightarrow> ids)"

text \<open>
  Lines 281-447: the branch \<^verbatim>\<open>confirmationIntent === 'proceed'\<close>. A \<^verbatim>\<open>TypeError\<close> leaves
  the branch for the handler's outer \<^verbatim>\<open>catch\<close> (lines 1915-1918), which answers with
  status 500; nothing has been created or saved by then.
\<close>

definition proceedBranch ::
  "Env \<Rightarrow> nat \<Rightarrow> UserLocation option \<Rightarrow> Context \<Rightarrow> CreatingEvent \<Rightarrow> Event list \<Rightarrow> call list \<Rightarrow> Turn" where
  "proceedBranch env uid userLocation context ce store cs0 =
     (let (d, c1) = finalEventDate env ce;
          (r, c2) = setTime env ce d
      in case r of
           Inl TypeError \<Rightarrow>
             \<lparr> response = Status500, saved = None, stored = store, calls = cs0 @ c1 @ c2 \<rparr>
         | Inr d' \<Rightarrow>
             (let eventData = eventDataOf ce d' (finalLocation ce userLocation) uid;
                  (createResult, store') = createEvent (dbAccepts env) (clock env) store eventData
              in case createResult of
                   Inr event \<Rightarrow>
                     \<lparr> response = Json eventCardPrompt True,
                       saved = Some (context\<lparr> lastEventIds := Some (take 5 (ev_id event # idsOf context)),
                                              creatingEvent := None \<rparr>),
                       stored = store',
                       calls = cs0 @ c1 @ c2 @
                         [CreateEvent eventData, GenerateResponse eventCardPrompt, SafeSaveConversation] \<rparr>
                 | Inl err \<Rightarrow>
                     \<lparr> response = Json errorPrompt False,
                       saved = Some context,
                       stored = store',
                       calls = cs0 @ c1 @ c2 @
                         [CreateEvent eventData, GenerateResponse errorPrompt, SafeSaveConversation] \<rparr>))"

text \<open>
  Lines 477-613: the fall-back inside the \<^verbatim>\<open>unclear\<close> branch, which repeats the proceed
  logic inline.
\<close>

definition fallbackProceed ::
  "Env \<Rightarrow> nat \<Rightarrow> UserLocation option \<Rightarrow> Context \<Rightarrow> CreatingEvent \<Rightarrow> Event list \<Rightarrow> call list \<Rightarrow> Turn" where
  "fallbackProceed env uid userLocation context ce store cs0 =
     (let (d, c1) = finalEventDate env ce;
          (d', c2) = setTimeFallback env ce d;
          eventData = eventDataOf ce d' (finalLocation ce userLocation) uid;
          (createResult, store') = createEvent (dbAccepts env) (clock env) store eventData
      in case createResult of
           Inr event \<Rightarrow>
             \<lparr> response = Json eventCardPrompt True,
               saved = Some (context\<lparr> lastEventIds := Some (ev_id event # idsOf context),
                                      creatingEvent := None \<rparr>),
               stored = store',
               calls = cs0 @ c1 @ c2 @
                 [CreateEvent eventData, GenerateResponse eventCardPrompt, SafeSaveConversation] \<rparr>
         | Inl err \<Rightarrow>
             \<lparr> response = Json errorPrompt False,
               saved = Some context,
               stored = store',
               calls = cs0 @ c1 @ c2 @
                 [CreateEvent eventData, GenerateResponse errorPrompt, SafeSaveConversation] \<rparr>)"

text \<open>
  Lines 189-640: the turn of a context that waits for a confirmation. Every branch ends
  the request.
\<close>

definition confirmationTurn ::
  "Env \<Rightarrow> nat \<Rightarrow> UserLocation option \<Rightarrow> Context \<Rightarrow> CreatingEvent \<Rightarrow> Event list \<Rightarrow> string \<Rightarrow> Turn" where
  "confirmationTurn env uid userLocation context ce store message =
     (let (confirmationIntent, ps) = classifyConfirmation (completion env) message;
          cs0 = map GenerateResponse ps
      in case confirmationIntent of
           proceed \<Rightarrow> proceedBranch env uid userLocation context ce store cs0
         | edit \<Rightarrow>
             \<lparr> response = Json editPrompt False,
               saved = Some context,
               stored = store,
               calls = cs0 @ [GenerateResponse editPrompt, SafeSaveConversation] \<rparr>
         | unclear \<Rightarrow>
             if finalFallbackNo (messageLowerFinal message)
             then fallbackProceed env uid userLocation context ce store cs0
             else
               \<lparr> response = Json clarifyPrompt False,
                 saved = Some context,
                 stored = store,
                 calls = cs0 @ [GenerateResponse clarifyPrompt, SafeSaveConversation] \<rparr>)"

text \<open>
  The chat handler from its entry to the end of the confirmation block (lines 70-640).
  \<open>context\<close> is the context of the conversation found for the session (empty for a new
  one), \<open>userLocation\<close> the value that lines 156-179 leave in \<^verbatim>\<open>userLocation\<close>. A turn
  that does not wait for a confirmation goes on in the draft, discovery, registration,
  reminder or general branch of the handler; \<open>Continues\<close> records the intent and the
  details with which it enters them.
\<close>

datatype outcome =
    Finished Turn
  | Continues string ExtractedDetails "call list"

definition chat ::
  "Env \<Rightarrow> nat \<Rightarrow> UserLocation option \<Rightarrow> Context \<Rightarrow> Event list \<Rightarrow> string \<Rightarrow> outcome" where
  "chat env uid userLocation context store message =
     (if trim message = []
      then Finished \<lparr> response = Status400, saved = None, stored = store, calls = [] \<rparr>
      else
        (let (i, extractedDetails, cs) = resolveIntent env context
         in case creatingEvent context of
              Some ce \<Rightarrow>
                if waitingForConfirmation ce
                then Finished (confirmationTurn env uid userLocation context ce store message)
                else Continues i extractedDetails cs
            | None \<Rightarrow> Continues i extractedDetails cs))"

text \<open>
  The proceed branch fails exactly in this situation: no date could be parsed, a time is
  stored, and the time parser understands it.
\<close>

definition timeWithoutDate :: "Env \<Rightarrow> CreatingEvent \<Rightarrow> bool" where
  "timeWithoutDate env ce =
     (fst (finalEventDate env ce) = None \<and>
      (case extractedTime ce of
         None \<Rightarrow> False
       | Some t \<Rightarrow> t \<noteq> [] \<and> parseTimeWithAI env t \<noteq> None))"

section \<open>Discovery: duplicates and placeholder locations\<close>

text \<open>
  \<^verbatim>\<open>editDistance\<close> (lines 1930-1954). \<^verbatim>\<open>costs\<close> is an array of \<open>s2.length + 1\<close> numbers
  after the row \<open>i = 0\<close>, which sets \<^verbatim>\<open>costs[j] = j\<close>. A later row \<open>i\<close> starts with
  \<^verbatim>\<open>lastValue = i\<close>, does nothing at \<open>j = 0\<close>, runs \<open>innerStep\<close> for
  \<open>j = 1, ..., s2.length\<close>, and then stores \<^verbatim>\<open>lastValue\<close> in the last cell.
  All indices stay inside the array.
\<close>

definition innerStep :: "char \<Rightarrow> string \<Rightarrow> nat \<Rightarrow> nat list \<times> nat \<Rightarrow> nat list \<times> nat" where
  "innerStep c s2 j st =
     (let costs = fst st; lastValue = snd st;
          newValue = costs ! (j - 1);
          newValue' = (if c \<noteq> s2 ! (j - 1)
                       then min (min newValue lastValue) (costs ! j) + 1
                       else newValue)
      in (costs[j - 1 := lastValue], newValue'))"

definition editRow :: "string \<Rightarrow> nat \<times> char \<Rightarrow> nat list \<Rightarrow> nat list" where
  "editRow s2 ic costs =
     (let st = fold (innerStep (snd ic) s2) [1..<Suc (length s2)] (costs, fst ic)
      in (fst st)[length s2 := snd st])"

definition editDistance :: "string \<Rightarrow> string \<Rightarrow> nat" where
  "editDistance a b =
     (let s1 = toLowerCase a; s2 = toLowerCase b;
          costs = fold (editRow s2) (zip [1..<Suc (length s1)] s1) [0..<Suc (length s2)]
      in costs ! length s2)"

text \<open>
  \<^verbatim>\<open>calculateSimilarity\<close> (lines 1922-1928) divides two integers in double precision and
  the caller compares the quotient with the literal \<^verbatim>\<open>0.9\<close>. Rounding is monotone, and a
  quotient \<open>(n - d) / n\<close> above \<open>9/10\<close> is above it by at least \<open>1 / (10 n)\<close>, more than the
  spacing \<open>2\<^sup>-\<^sup>5\<^sup>3\<close> of doubles near 0.9 for every string a JavaScript engine can hold; so
  the comparison of the doubles agrees with the comparison of the exact quotients, and
  the similarity is modelled as a rational number.
\<close>

definition calculateSimilarity :: "string \<Rightarrow> string \<Rightarrow> rat" where
  "calculateSimilarity s1 s2 =
     (let longer = (if length s1 > length s2 then s1 else s2);
          shorter = (if length s1 > length s2 then s2 else s1);
          longerLength = length longer
      in if longerLength = 0 then 1
         else (of_nat longerLength - of_nat (editDistance longer shorter)) / of_nat longerLength)"

text \<open>
  Lines 1093-1119: the in-batch removal of duplicates. \<^verbatim>\<open>seenTitles\<close> and \<^verbatim>\<open>seenUrls\<close>
  are sets that only grow; they are kept as lists in insertion order.
\<close>

definition titleKey :: "EventData \<Rightarrow> string" where
  "titleKey event = trim (toLowerCase (title event))"

definition urlKey :: "EventData \<Rightarrow> string option" where
  "urlKey event =
     (if truthy (sourceUrl event)
      then map_option (\<lambda>u. trim (toLowerCase u)) (sourceUrl event)
      else None)"

definition seenUrl :: "string option \<Rightarrow> string list \<Rightarrow> bool" where
  "seenUrl uk seenUrls = (case uk of None \<Rightarrow> False | Some u \<Rightarrow> u \<noteq> [] \<and> u \<in> set seenUrls)"

definition addUrl :: "string option \<Rightarrow> string list \<Rightarrow> string list" where
  "addUrl uk seenUrls =
     (case uk of None \<Rightarrow> seenUrls | Some u \<Rightarrow> if u \<noteq> [] then seenUrls @ [u] else seenUrls)"

fun removeDuplicates ::
  "EventData list \<Rightarrow> string list \<Rightarrow> string list \<Rightarrow> EventData list \<Rightarrow> EventData list" where
  "removeDuplicates [] seenTitles seenUrls uniqueEvents = uniqueEvents"
| "removeDuplicates (event # rest) seenTitles seenUrls uniqueEvents =
     (if titleKey event \<in> set seenTitles \<or> seenUrl (urlKey event) seenUrls
      then removeDuplicates rest seenTitles seenUrls uniqueEvents
      else if list_ex (\<lambda>seenTitle. calculateSimilarity (titleKey event) seenTitle > 9 / 10) seenTitles
      then removeDuplicates rest seenTitles seenUrls uniqueEvents
      else removeDuplicates rest (seenTitles @ [titleKey event])
             (addUrl (urlKey event) seenUrls) (uniqueEvents @ [event]))"

definition uniqueEvents :: "EventData list \<Rightarrow> EventData list" where
  "uniqueEvents events = removeDuplicates events [] [] []"

text \<open>
  The relation that the loop tests between a result and a result kept before it.
\<close>

definition duplicateOf :: "EventData \<Rightarrow> EventData \<Rightarrow> bool" where
  "duplicateOf event kept =
     (titleKey event = titleKey kept \<or>
      seenUrl (urlKey event) (addUrl (urlKey kept) []) \<or>
      calculateSimilarity (titleKey event) (titleKey kept) > 9 / 10)"

text \<open>
  Lines 1219-1233: the validated indices select candidates, a candidate whose location is
  a placeholder is dropped, and at most five remain.
\<close>

definition placeholderLocation :: "EventData \<Rightarrow> bool" where
  "placeholderLocation event =
     (truthy (location event) \<and>
      (location event = Some ''Location TBD'' \<or>
       map_option (\<lambda>l. trim (toLowerCase l)) (location event) = Some ''tbd''))"

definition validatedEvents :: "EventData list \<Rightarrow> nat list \<Rightarrow> EventData list" where
  "validatedEvents eventsToValidate validatedEventIndices =
     take 5
       (filter (\<lambda>event. \<not> placeholderLocation event)
          (map (\<lambda>idx. eventsToValidate ! idx)
             (filter (\<lambda>idx. idx < length eventsToValidate) validatedEventIndices)))"

section \<open>Registration\<close>

text \<open>
  \<^verbatim>\<open>createRegistration\<close> (services/eventService.js, lines 436-505) on the list of stored
  registrations. The schema (models/Registration.js) requires and trims \<^verbatim>\<open>name\<close> and
  \<^verbatim>\<open>email\<close>, lower-cases \<^verbatim>\<open>email\<close>, stamps the document like an event, and has a unique
  index on (userId, eventId).

  \<^verbatim>\<open>registration.save()\<close> throws a validation error when the trimmed name or address is
  empty. Otherwise the database answers: it stores the row, or it reports a duplicate key
  (error code 11000: another request has inserted the pair since the look-up), or it
  fails otherwise. The \<^verbatim>\<open>catch\<close> (lines 498-504) answers code 11000 with
  \<^verbatim>\<open>'You are already registered for this event'\<close> and everything else with
  \<^verbatim>\<open>'Registration failed'\<close>.

  \<^verbatim>\<open>Registration.findOne\<close> before the save, and \<^verbatim>\<open>Event.findById\<close> and
  \<^verbatim>\<open>User.findById\<close> after it, are queries, which answer from the stored documents; the
  mails and the mailing-list subscription that follow the save take their failures
  themselves (lines 463-474 and 478-494) and add no row.
\<close>

datatype saveResult = Saved | DuplicateKey | SaveError

record Registration =
  reg_userId :: nat
  reg_eventId :: nat
  reg_name :: string
  reg_email :: string
  reg_status :: string
  reg_createdAt :: int
  reg_updatedAt :: int

definition createRegistration ::
  "(Registration \<Rightarrow> saveResult) \<Rightarrow> int \<times> int \<Rightarrow> Registration list
     \<Rightarrow> nat \<Rightarrow> nat \<Rightarrow> string \<Rightarrow> string
     \<Rightarrow> (string + Registration) \<times> Registration list" where
  "createRegistration dbSave stamps registrations uid eid name email =
     (case find (\<lambda>r. reg_userId r = uid \<and> reg_eventId r = eid) registrations of
        Some existingRegistration \<Rightarrow>
          (Inl ''You are already registered for this event'', registrations)
      | None \<Rightarrow>
          (let registration =
                 \<lparr> reg_userId = uid, reg_eventId = eid, reg_name = trim name,
                   reg_email = toLowerCase (trim email), reg_status = ''confirmed'',
                   reg_createdAt = fst stamps, reg_updatedAt = snd stamps \<rparr>
           in if trim name = [] \<or> trim email = []
              then (Inl ''Registration failed'', registrations)
              else (case dbSave registration of
                      Saved \<Rightarrow> (Inr registration, registrations @ [registration])
                    | DuplicateKey \<Rightarrow>
                        (Inl ''You are already registered for this event'', registrations)
                    | SaveError \<Rightarrow> (Inl ''Registration failed'', registrations))))"

section \<open>Notions used by the statements\<close>

text \<open>
  A confirmation is carried out as a proceed either when the classification says
  \<open>proceed\<close> or when it says \<open>unclear\<close> and the fall-back of lines 474-476 recognises a
  negative token.
\<close>

definition classifiedProceed :: "(prompt \<Rightarrow> string option) \<Rightarrow> string \<Rightarrow> bool" where
  "classifiedProceed llm message =
     (fst (classifyConfirmation llm message) = proceed \<or>
      fst (classifyConfirmation llm message) = unclear \<and>
        finalFallbackNo (messageLowerFinal message))"

text \<open>
  The object that the proceed branch hands to \<^verbatim>\<open>createEvent\<close> when it gets there, and the
  one that the fall-back hands over.
\<close>

definition proceedData :: "Env \<Rightarrow> nat \<Rightarrow> UserLocation option \<Rightarrow> CreatingEvent \<Rightarrow> EventData" where
  "proceedData env uid ul ce =
     eventDataOf ce
       (case fst (setTime env ce (fst (finalEventDate env ce))) of Inl e \<Rightarrow> None | Inr d \<Rightarrow> d)
       (finalLocation ce ul) uid"

definition fallbackData :: "Env \<Rightarrow> nat \<Rightarrow> UserLocation option \<Rightarrow> CreatingEvent \<Rightarrow> EventData" where
  "fallbackData env uid ul ce =
     eventDataOf ce (fst (setTimeFallback env ce (fst (finalEventDate env ce))))
       (finalLocation ce ul) uid"

text \<open>The loop invariant of \<open>removeDuplicates\<close>: the two sets describe the kept results.\<close>

definition seenInv :: "string list \<Rightarrow> string list \<Rightarrow> EventData list \<Rightarrow> bool" where
  "seenInv seenTitles seenUrls kept =
     (seenTitles = map titleKey kept \<and>
      set seenUrls = {u. u \<noteq> [] \<and> (\<exists>k\<in>set kept. urlKey k = Some u)})"

section \<open>Example turns\<close>

text \<open>
  A draft for "Tech Summit 2025" that has been shown and waits for its confirmation, the
  context that holds it, and services that answer: the extraction sees a discovery request,
  the language model answers "edit", no date can be parsed, the time parser reads 18:00,
  the database takes every write, and the clock reads a time in November 2025.
\<close>

definition exampleDraft :: CreatingEvent where
  "exampleDraft =
     \<lparr> ce_title = ''Tech Summit 2025'', waitingForConfirmation = True, shownEventCard = True,
       formattedDisplay = ''Tech Summit 2025'', top5SnippetsSection = None,
       top5LinksSection = None, extractedDate = None, extractedTime = None,
       extractedLocation = None, serperExtractedDate = None \<rparr>"

definition exampleContext :: "CreatingEvent \<Rightarrow> nat list option \<Rightarrow> Context" where
  "exampleContext ce ids = \<lparr> creatingEvent = Some ce, lastEventIds = ids, lastSearchQuery = None \<rparr>"

definition exampleClock :: "int \<times> int" where
  "exampleClock = (1762128000000, 1762128000003)"

definition exampleEnv :: Env where
  "exampleEnv =
     \<lparr> extractEventDetailsWithAI =
         \<lparr> intent = ''discovery'', eventTitle = Some ''Jazz Night'', date = None, time = None,
           ed_location = None, ed_category = None, useUserLocation = False \<rparr>,
       completion = (\<lambda>p. Some ''edit''),
       parseDateWithAI = (\<lambda>k s. None),
       parseTimeWithAI = (\<lambda>s. Some (18, 0)),
       dbAccepts = (\<lambda>d. True),
       clock = exampleClock \<rparr>"

text \<open>Five events that user 7 created earlier, with the identifiers 1 to 5.\<close>

definition fiveEvents :: "Event list" where
  "fiveEvents =
     map (\<lambda>i. newEvent i 7 exampleClock (eventDataOf exampleDraft None None 7)) [1, 2, 3, 4, 5]"

text \<open>The same services with a database that refuses the write, and with a language
  model that cannot be reached.\<close>

definition refusingEnv :: Env where
  "refusingEnv = exampleEnv\<lparr> dbAccepts := (\<lambda>d. False) \<rparr>"

definition silentEnv :: Env where
  "silentEnv = exampleEnv\<lparr> completion := (\<lambda>p. None) \<rparr>"

text \<open>A search result, reduced to its title and its link.\<close>

definition searchResult :: "string \<Rightarrow> string \<Rightarrow> EventData" where
  "searchResult t link =
     \<lparr> title = t, category = None, startDate = None, location = None, mode = None,
       price = None, snippet = Some [], source = ''serpapi'', sourceUrl = Some link,
       userId = None \<rparr>"

text \<open>The example draft with a stored time and no date, and with the location "TBD".\<close>

definition draftWithTime :: CreatingEvent where
  "draftWithTime = exampleDraft\<lparr> extractedTime := Some ''18:00'' \<rparr>"

definition draftTBD :: CreatingEvent where
  "draftTBD = exampleDraft\<lparr> extractedLocation := Some ''TBD'' \<rparr>"

text \<open>The registration of user 7 for event 1.\<close>

definition exampleRegistration :: Registration where
  "exampleRegistration =
     \<lparr> reg_userId = 7, reg_eventId = 1, reg_name = ''Ada Lovelace'',
       reg_email = ''ada@example.org'', reg_status = ''confirmed'',
       reg_createdAt = fst exampleClock, reg_updatedAt = snd exampleClock \<rparr>"

section \<open>Properties of the proceed branches\<close>

lemma jsError_eq [simp]: "(e::jsError) = TypeError"
  by (cases e) simp

lemma setTime_Inl:
  "fst (setTime env ce d) = Inl TypeError \<longleftrightarrow>
     d = None \<and> (case extractedTime ce of None \<Rightarrow> False
                  | Some t \<Rightarrow> t \<noteq> [] \<and> parseTimeWithAI env t \<noteq> None)"
  by (auto simp: setTime_def truthy_def split: option.splits prod.splits)

lemma setTime_None:
  "setTime env ce None = (Inr d', c2) \<Longrightarrow> d' = None"
  by (auto simp: setTime_def split: option.splits prod.splits if_splits)

lemma setTimeFallback_None:
  "setTimeFallback env ce None = (None, [])"
  by (simp add: setTimeFallback_def)

lemma finalEventDate_calls:
  "finalEventDate env ce = (d, c1) \<Longrightarrow> CreateEvent x \<notin> set c1 \<and> GenerateResponse p \<notin> set c1"
  by (auto simp: finalEventDate_def parseStored_def split: option.splits prod.splits if_splits)

lemma setTime_calls:
  "setTime env ce d = (r, c2) \<Longrightarrow> CreateEvent x \<notin> set c2 \<and> GenerateResponse p \<notin> set c2"
  by (auto simp: setTime_def split: option.splits prod.splits if_splits)

lemma setTimeFallback_calls:
  "setTimeFallback env ce d = (r, c2) \<Longrightarrow> CreateEvent x \<notin> set c2 \<and> GenerateResponse p \<notin> set c2"
  by (auto simp: setTimeFallback_def split: option.splits prod.splits if_splits)

lemma createEvent_accepts:
  "validEventData d \<Longrightarrow> dbAccepts env d \<Longrightarrow> userId d = Some uid \<Longrightarrow>
   createEvent (dbAccepts env) (clock env) store d =
     (Inr (newEvent (newObjectId store) uid (clock env) d),
      store @ [newEvent (newObjectId store) uid (clock env) d])"
  by (simp add: createEvent_def Let_def)

lemma createEvent_rejects:
  "\<not> (validEventData d \<and> dbAccepts env d) \<Longrightarrow>
   createEvent (dbAccepts env) (clock env) store d = (Inl ''Failed to create event'', store)"
  by (auto simp: createEvent_def split: option.splits)

lemma proceedData_without_date:
  "fst (finalEventDate env ce) = None \<Longrightarrow>
   proceedData env uid ul ce = eventDataOf ce None (finalLocation ce ul) uid"
  by (cases "setTime env ce None")
     (auto simp: proceedData_def split: sum.splits dest: setTime_None)

lemma fallbackData_without_date:
  "fst (finalEventDate env ce) = None \<Longrightarrow>
   fallbackData env uid ul ce = eventDataOf ce None (finalLocation ce ul) uid"
  by (simp add: fallbackData_def setTimeFallback_None)

text \<open>The fall-back never fails: it always reaches \<^verbatim>\<open>createEvent\<close>.\<close>

lemma fallbackProceed_runs:
  "stored (fallbackProceed env uid ul context ce store cs0)
     = (if validEventData (fallbackData env uid ul ce) \<and> dbAccepts env (fallbackData env uid ul ce)
        then store @ [newEvent (newObjectId store) uid (clock env) (fallbackData env uid ul ce)]
        else store)
   \<and> response (fallbackProceed env uid ul context ce store cs0)
     = (if validEventData (fallbackData env uid ul ce) \<and> dbAccepts env (fallbackData env uid ul ce)
        then Json eventCardPrompt True
        else Json errorPrompt False)
   \<and> saved (fallbackProceed env uid ul context ce store cs0)
     = (if validEventData (fallbackData env uid ul ce) \<and> dbAccepts env (fallbackData env uid ul ce)
        then Some (context\<lparr> lastEventIds := Some (newObjectId store # idsOf context),
                           creatingEvent := None \<rparr>)
        else Some context)
   \<and> (\<forall>d. CreateEvent d \<in> set (calls (fallbackProceed env uid ul context ce store cs0))
            \<longleftrightarrow> d = fallbackData env uid ul ce \<or> CreateEvent d \<in> set cs0)"
proof -
  obtain d c1 where fd: "finalEventDate env ce = (d, c1)" by (cases "finalEventDate env ce")
  obtain d' c2 where st: "setTimeFallback env ce d = (d', c2)" by (cases "setTimeFallback env ce d")
  have c1: "\<forall>x. CreateEvent x \<notin> set c1" using finalEventDate_calls[OF fd] by blast
  have c2: "\<forall>x. CreateEvent x \<notin> set c2" using setTimeFallback_calls[OF st] by blast
  have fb: "fallbackData env uid ul ce = eventDataOf ce d' (finalLocation ce ul) uid"
    by (simp add: fallbackData_def fd st)
  have u: "userId (fallbackData env uid ul ce) = Some uid" by (simp add: fb eventDataOf_def)
  show ?thesis
  proof (cases "validEventData (fallbackData env uid ul ce) \<and> dbAccepts env (fallbackData env uid ul ce)")
    case True
    then have "createEvent (dbAccepts env) (clock env) store (fallbackData env uid ul ce) =
        (Inr (newEvent (newObjectId store) uid (clock env) (fallbackData env uid ul ce)),
         store @ [newEvent (newObjectId store) uid (clock env) (fallbackData env uid ul ce)])"
      using createEvent_accepts u by blast
    then show ?thesis
      using True c1 c2
      by (auto simp: fallbackProceed_def fd st fb [symmetric] newEvent_def Let_def)
  next
    case False
    then have "createEvent (dbAccepts env) (clock env) store (fallbackData env uid ul ce)
                 = (Inl ''Failed to create event'', store)"
      by (rule createEvent_rejects)
    then show ?thesis
      using False c1 c2
      by (auto simp: fallbackProceed_def fd st fb [symmetric] Let_def)
  qed
qed

lemma proceedBranch_crash:
  assumes "timeWithoutDate env ce"
  shows "response (proceedBranch env uid ul context ce store cs0) = Status500
       \<and> saved (proceedBranch env uid ul context ce store cs0) = None
       \<and> stored (proceedBranch env uid ul context ce store cs0) = store
       \<and> (\<forall>d. CreateEvent d \<in> set (calls (proceedBranch env uid ul context ce store cs0))
               \<longleftrightarrow> CreateEvent d \<in> set cs0)"
proof -
  obtain d c1 where fd: "finalEventDate env ce = (d, c1)" by (cases "finalEventDate env ce")
  with assms have "fst (setTime env ce d) = Inl TypeError"
    by (simp add: setTime_Inl timeWithoutDate_def)
  then obtain c2 where st: "setTime env ce d = (Inl TypeError, c2)"
    by (cases "setTime env ce d") auto
  show ?thesis
    using finalEventDate_calls[OF fd] setTime_calls[OF st]
    by (auto simp add: proceedBranch_def fd st)
qed

lemma proceedBranch_runs:
  assumes "\<not> timeWithoutDate env ce"
  shows "stored (proceedBranch env uid ul context ce store cs0)
     = (if validEventData (proceedData env uid ul ce) \<and> dbAccepts env (proceedData env uid ul ce)
        then store @ [newEvent (newObjectId store) uid (clock env) (proceedData env uid ul ce)]
        else store)
   \<and> response (proceedBranch env uid ul context ce store cs0)
     = (if validEventData (proceedData env uid ul ce) \<and> dbAccepts env (proceedData env uid ul ce)
        then Json eventCardPrompt True
        else Json errorPrompt False)
   \<and> saved (proceedBranch env uid ul context ce store cs0)
     = (if validEventData (proceedData env uid ul ce) \<and> dbAccepts env (proceedData env uid ul ce)
        then Some (context\<lparr> lastEventIds := Some (take 5 (newObjectId store # idsOf context)),
                           creatingEvent := None \<rparr>)
        else Some context)
   \<and> (\<forall>d. CreateEvent d \<in> set (calls (proceedBranch env uid ul context ce store cs0))
            \<longleftrightarrow> d = proceedData env uid ul ce \<or> CreateEvent d \<in> set cs0)"
proof -
  obtain d c1 where fd: "finalEventDate env ce = (d, c1)" by (cases "finalEventDate env ce")
  have c1: "\<forall>x. CreateEvent x \<notin> set c1" using finalEventDate_calls[OF fd] by blast
  from assms fd have "fst (setTime env ce d) \<noteq> Inl TypeError"
    by (simp add: setTime_Inl timeWithoutDate_def)
  then obtain d' c2 where st: "setTime env ce d = (Inr d', c2)"
    by (cases "setTime env ce d"; cases "fst (setTime env ce d)") auto
  have c2: "\<forall>x. CreateEvent x \<notin> set c2" using setTime_calls[OF st] by blast
  have pd: "proceedData env uid ul ce = eventDataOf ce d' (finalLocation ce ul) uid"
    by (simp add: proceedData_def fd st)
  have u: "userId (proceedData env uid ul ce) = Some uid" by (simp add: pd eventDataOf_def)
  show ?thesis
  proof (cases "validEventData (proceedData env uid ul ce) \<and> dbAccepts env (proceedData env uid ul ce)")
    case True
    then have "createEvent (dbAccepts env) (clock env) store (proceedData env uid ul ce) =
        (Inr (newEvent (newObjectId store) uid (clock env) (proceedData env uid ul ce)),
         store @ [newEvent (newObjectId store) uid (clock env) (proceedData env uid ul ce)])"
      using createEvent_accepts u by blast
    then show ?thesis
      using True c1 c2
      by (auto simp: proceedBranch_def fd st pd [symmetric] newEvent_def Let_def)
  next
    case False
    then have "createEvent (dbAccepts env) (clock env) store (proceedData env uid ul ce)
                 = (Inl ''Failed to create event'', store)"
      by (rule createEvent_rejects)
    then show ?thesis
      using False c1 c2
      by (auto simp: proceedBranch_def fd st pd [symmetric] Let_def)
  qed
qed

lemma confirmationTurn_proceed:
  "classifyConfirmation (completion env) message = (proceed, ps) \<Longrightarrow>
   confirmationTurn env uid ul context ce store message
     = proceedBranch env uid ul context ce store (map GenerateResponse ps)"
  by (simp add: confirmationTurn_def)

lemma confirmationTurn_fallback:
  "classifyConfirmation (completion env) message = (unclear, ps) \<Longrightarrow>
   finalFallbackNo (messageLowerFinal message) \<Longrightarrow>
   confirmationTurn env uid ul context ce store message
     = fallbackProceed env uid ul context ce store (map GenerateResponse ps)"
  by (simp add: confirmationTurn_def)

text \<open>The edit branch and the clarification save the context of the request.\<close>

lemma confirmationTurn_edit:
  "fst (classifyConfirmation (completion env) message) = edit \<Longrightarrow>
   confirmationTurn env uid ul context ce store message
     = \<lparr> response = Json editPrompt False, saved = Some context, stored = store,
         calls = map GenerateResponse (snd (classifyConfirmation (completion env) message))
                   @ [GenerateResponse editPrompt, SafeSaveConversation] \<rparr>"
  by (cases "classifyConfirmation (completion env) message") (simp add: confirmationTurn_def)

lemma no_CreateEvent_in_prompts: "CreateEvent d \<notin> set (map GenerateResponse ps)"
  by auto

lemma calls_proceedBranch:
  "ExtractEventDetailsWithAI \<notin> set cs0 \<Longrightarrow>
   ExtractEventDetailsWithAI \<notin> set (calls (proceedBranch env uid ul context ce store cs0))"
  by (auto simp: proceedBranch_def finalEventDate_def parseStored_def setTime_def Let_def
       split: prod.splits sum.splits option.splits if_splits)

lemma calls_fallbackProceed:
  "ExtractEventDetailsWithAI \<notin> set cs0 \<Longrightarrow>
   ExtractEventDetailsWithAI \<notin> set (calls (fallbackProceed env uid ul context ce store cs0))"
  by (auto simp: fallbackProceed_def finalEventDate_def parseStored_def setTimeFallback_def Let_def
       split: prod.splits sum.splits option.splits if_splits)

lemma calls_confirmationTurn:
  "ExtractEventDetailsWithAI \<notin> set (calls (confirmationTurn env uid ul context ce store message))"
proof -
  have "ExtractEventDetailsWithAI \<notin> set (map GenerateResponse ps)" for ps
    by auto
  then show ?thesis
    by (auto simp: confirmationTurn_def Let_def calls_proceedBranch calls_fallbackProceed
         split: prod.splits confirmationIntent.splits)
qed

section \<open>Normalisation and the placeholder filter of the discovery flow\<close>

lemma isWhiteSpace_toLowerChar: "isWhiteSpace (toLowerChar c) = isWhiteSpace c"
  by (auto simp: isWhiteSpace_def toLowerChar_def upperCase_def lowerCase_def
       split: option.splits if_splits)

lemma trim_toLowerCase: "trim (toLowerCase s) = toLowerCase (trim s)"
  by (simp add: trim_def toLowerCase_def dropWhile_map rev_map comp_def isWhiteSpace_toLowerChar)


lemma validatedEvents_no_placeholder:
  "e \<in> set (validatedEvents es idxs) \<Longrightarrow> \<not> placeholderLocation e"
  by (auto simp: validatedEvents_def dest!: in_set_takeD)

lemma discovery_never_stores_TBD:
  assumes "e \<in> set (validatedEvents es idxs)"
  shows "ev_location (newEvent i uid stamps e) \<noteq> Some ''TBD''"
proof
  assume "ev_location (newEvent i uid stamps e) = Some ''TBD''"
  then obtain l where l: "location e = Some l" "trim l = ''TBD''"
    by (auto simp: newEvent_def)
  then have "l \<noteq> []" by (auto simp: trim_def)
  moreover have "toLowerCase ''TBD'' = ''tbd''"
    by code_simp
  then have "trim (toLowerCase l) = ''tbd''"
    using l by (simp add: trim_toLowerCase)
  ultimately have "placeholderLocation e"
    using l by (simp add: placeholderLocation_def truthy_def)
  with validatedEvents_no_placeholder [OF assms] show False by simp
qed

section \<open>Properties of the duplicate removal\<close>

lemma seenUrl_iff:
  "seenUrl uk seenUrls \<longleftrightarrow> (\<exists>u. uk = Some u \<and> u \<noteq> [] \<and> u \<in> set seenUrls)"
  by (auto simp: seenUrl_def split: option.splits)

lemma set_addUrl:
  "set (addUrl uk seenUrls) = set seenUrls \<union> {u. uk = Some u \<and> u \<noteq> []}"
  by (auto simp: addUrl_def split: option.splits)

lemma seenInv_Nil: "seenInv [] [] []"
  by (simp add: seenInv_def)

lemma seenInv_add:
  "seenInv seenTitles seenUrls kept \<Longrightarrow>
   seenInv (seenTitles @ [titleKey e]) (addUrl (urlKey e) seenUrls) (kept @ [e])"
  by (auto simp: seenInv_def set_addUrl)

lemma seenInv_test:
  assumes "seenInv seenTitles seenUrls kept"
  shows "(titleKey e \<in> set seenTitles \<or> seenUrl (urlKey e) seenUrls \<or>
          list_ex (\<lambda>seenTitle. calculateSimilarity (titleKey e) seenTitle > 9 / 10) seenTitles)
         \<longleftrightarrow> (\<exists>k\<in>set kept. duplicateOf e k)"
proof -
  have t: "seenTitles = map titleKey kept"
    and u: "set seenUrls = {u. u \<noteq> [] \<and> (\<exists>k\<in>set kept. urlKey k = Some u)}"
    using assms by (simp_all add: seenInv_def)
  have a: "titleKey e \<in> set seenTitles \<longleftrightarrow> (\<exists>k\<in>set kept. titleKey e = titleKey k)"
    by (auto simp: t)
  have b: "seenUrl (urlKey e) seenUrls
             \<longleftrightarrow> (\<exists>k\<in>set kept. seenUrl (urlKey e) (addUrl (urlKey k) []))"
    by (auto simp: seenUrl_iff set_addUrl u)
  have c: "list_ex (\<lambda>seenTitle. calculateSimilarity (titleKey e) seenTitle > 9 / 10) seenTitles
             \<longleftrightarrow> (\<exists>k\<in>set kept. calculateSimilarity (titleKey e) (titleKey k) > 9 / 10)"
    by (auto simp: t list_ex_iff)
  show ?thesis
    unfolding a b c duplicateOf_def by blast
qed

lemma removeDuplicates_step:
  assumes "seenInv seenTitles seenUrls kept"
  shows "removeDuplicates (e # rest) seenTitles seenUrls kept =
           (if \<exists>k\<in>set kept. duplicateOf e k
            then removeDuplicates rest seenTitles seenUrls kept
            else removeDuplicates rest (seenTitles @ [titleKey e])
                   (addUrl (urlKey e) seenUrls) (kept @ [e]))"
  using seenInv_test [OF assms, of e] by auto

lemma removeDuplicates_snoc:
  assumes "seenInv seenTitles seenUrls kept"
  shows "removeDuplicates (xs @ [e]) seenTitles seenUrls kept =
           (if \<exists>k\<in>set (removeDuplicates xs seenTitles seenUrls kept). duplicateOf e k
            then removeDuplicates xs seenTitles seenUrls kept
            else removeDuplicates xs seenTitles seenUrls kept @ [e])"
  using assms
proof (induction xs arbitrary: seenTitles seenUrls kept)
  case Nil
  then show ?case
    using removeDuplicates_step [OF Nil, of e "[]"] by simp
next
  case (Cons x xs)
  show ?case
  proof (cases "\<exists>k\<in>set kept. duplicateOf x k")
    case True
    then show ?thesis
      using Cons.IH [OF Cons.prems]
      by (simp add: removeDuplicates_step [OF Cons.prems] del: removeDuplicates.simps)
  next
    case False
    then show ?thesis
      using Cons.IH [OF seenInv_add [OF Cons.prems, of x]]
      by (simp add: removeDuplicates_step [OF Cons.prems] del: removeDuplicates.simps)
  qed
qed

lemma uniqueEvents_snoc:
  "uniqueEvents (xs @ [e]) =
     (if \<exists>k\<in>set (uniqueEvents xs). duplicateOf e k
      then uniqueEvents xs else uniqueEvents xs @ [e])"
  unfolding uniqueEvents_def by (rule removeDuplicates_snoc [OF seenInv_Nil])

lemma uniqueEvents_Nil: "uniqueEvents [] = []"
  by (simp add: uniqueEvents_def)

lemma uniqueEvents_subset: "set (uniqueEvents xs) \<subseteq> set xs"
  by (induction xs rule: rev_induct) (auto simp: uniqueEvents_Nil uniqueEvents_snoc)

lemma uniqueEvents_covers:
  "x \<in> set xs \<Longrightarrow> x \<in> set (uniqueEvents xs) \<or> (\<exists>k\<in>set (uniqueEvents xs). duplicateOf x k)"
  by (induction xs rule: rev_induct) (auto simp: uniqueEvents_Nil uniqueEvents_snoc)

lemma uniqueEvents_pairwise:
  "i < j \<Longrightarrow> j < length (uniqueEvents xs) \<Longrightarrow>
   \<not> duplicateOf (uniqueEvents xs ! j) (uniqueEvents xs ! i)"
proof (induction xs rule: rev_induct)
  case Nil
  then show ?case by (simp add: uniqueEvents_Nil)
next
  case (snoc e xs)
  show ?case
  proof (cases "\<exists>k\<in>set (uniqueEvents xs). duplicateOf e k")
    case True
    then show ?thesis using snoc by (simp add: uniqueEvents_snoc)
  next
    case False
    then have u: "uniqueEvents (xs @ [e]) = uniqueEvents xs @ [e]"
      by (simp add: uniqueEvents_snoc)
    show ?thesis
    proof (cases "j < length (uniqueEvents xs)")
      case True
      then show ?thesis using snoc by (simp add: u nth_append)
    next
      case False
      with snoc.prems have j: "j = length (uniqueEvents xs)" by (simp add: u)
      with snoc.prems have "uniqueEvents xs ! i \<in> set (uniqueEvents xs)" by simp
      with \<open>\<not> (\<exists>k\<in>set (uniqueEvents xs). duplicateOf e k)\<close> show ?thesis
        using snoc.prems by (auto simp: u j nth_append)
    qed
  qed
qed

section \<open>Claims\<close>

subsection \<open>C1: a waiting draft forces the intent\<close>

text \<open>
  Claim C1. For every session whose stored context has
  \<^verbatim>\<open>creatingEvent.waitingForConfirmation\<close> set to true, processing the next inbound message
  resolves the intent to \<^verbatim>\<open>'create'\<close> without calling the extraction service for a new
  event title, whatever the message says: the intent resolution returns \<^verbatim>\<open>'create'\<close>
  with a \<^verbatim>\<open>null\<close> title and makes no call, whatever the extraction service would have
  answered, and the turn of any message that the handler accepts ends without a call to
  \<^verbatim>\<open>extractEventDetailsWithAI\<close>.
\<close>

theorem waiting_forces_create:
  assumes "isWaiting context"
  shows "resolveIntent env context =
           (''create'',
            \<lparr> intent = ''create'', eventTitle = None, date = None, time = None,
              ed_location = None, ed_category = None, useUserLocation = False \<rparr>, [])
         \<and> (trim message \<noteq> [] \<longrightarrow>
              (\<exists>t. chat env uid ul context store message = Finished t
                   \<and> ExtractEventDetailsWithAI \<notin> set (calls t)))"
  using assms
  by (auto simp: resolveIntent_def chat_def isWaiting_def calls_confirmationTurn split: option.splits)

text \<open>
  The theorem at the example draft: the extraction service would have reported a discovery
  request for "Jazz Night"; it is not asked.
\<close>

theorem waiting_forces_create_witness:
  "isWaiting (exampleContext exampleDraft None)
   \<and> fst (resolveIntent exampleEnv (exampleContext exampleDraft None)) = ''create''
   \<and> eventTitle (fst (snd (resolveIntent exampleEnv (exampleContext exampleDraft None)))) = None
   \<and> snd (snd (resolveIntent exampleEnv (exampleContext exampleDraft None))) = []
   \<and> (\<exists>t. chat exampleEnv 7 None (exampleContext exampleDraft None) [] ''Find jazz concerts in Paris''
             = Finished t \<and> ExtractEventDetailsWithAI \<notin> set (calls t))"
proof -
  have w: "isWaiting (exampleContext exampleDraft None)"
    by (simp add: isWaiting_def exampleContext_def exampleDraft_def)
  have m: "trim ''Find jazz concerts in Paris'' \<noteq> []"
    by code_simp
  show ?thesis
    using w m waiting_forces_create [OF w, of exampleEnv "''Find jazz concerts in Paris''" 7 None "[]"]
    by simp
qed

subsection \<open>C2: a negative token means proceed\<close>




subsection \<open>C3: a proceed without a date\<close>

text \<open>
  Claim C3 says that a proceed without a parseable date persists the event, without a start
  date and with exactly the keys title, startDate, location, source and userId. The
  persistence does not hold for every such turn. Here the user answers "yes", no date can
  be parsed, and the database refuses the write: nothing is stored.
\<close>

theorem yes_without_date_not_persisted_counterexample:
  "classifiedProceed (completion refusingEnv) ''yes''
   \<and> fst (finalEventDate refusingEnv exampleDraft) = None
   \<and> stored (confirmationTurn refusingEnv 7 None (exampleContext exampleDraft None) exampleDraft []
               ''yes'') = []"
  by code_simp

text \<open>
  Claim C3, amended. Take a confirmation turn carried out as a proceed (by the proceed
  branch or by the fall-back of the unclear branch) in which neither the stored date nor
  the web-extracted date can be parsed. The only object that the turn hands to
  \<^verbatim>\<open>createEvent\<close> is the literal with the title of the draft, the location if one is
  known, \<^verbatim>\<open>source = 'user_created'\<close> and the user's id, and with no start date, category,
  mode, price, snippet or source URL. The store is left as it was or gains exactly the
  document made from that literal: no start date, category, mode or price, the title and
  the location trimmed, \<^verbatim>\<open>attendeesCount = 0\<close> and the two time stamps added by the schema.
  Unless the proceed branch itself runs while a time is stored and understood, the turn
  does call \<^verbatim>\<open>createEvent\<close>, and the store gains the document exactly when the
  validators and the database accept the literal and is left as it was when they refuse
  it; this covers every turn of the fall-back, which stores the event also when a time is
  stored without a date.
\<close>

theorem proceed_without_date:
  assumes "classifiedProceed (completion env) message"
    and "fst (finalEventDate env ce) = None"
  shows "(\<forall>d. CreateEvent d \<in> set (calls (confirmationTurn env uid ul context ce store message)) \<longrightarrow> d = eventDataOf ce None (finalLocation ce ul) uid)
       \<and> (stored (confirmationTurn env uid ul context ce store message) = store \<or> stored (confirmationTurn env uid ul context ce store message) = store @ [newEvent (newObjectId store) uid (clock env) (eventDataOf ce None (finalLocation ce ul) uid)])
       \<and> ((fst (classifyConfirmation (completion env) message) = proceed
              \<longrightarrow> \<not> timeWithoutDate env ce)
          \<longrightarrow> CreateEvent (eventDataOf ce None (finalLocation ce ul) uid) \<in> set (calls (confirmationTurn env uid ul context ce store message))
              \<and> stored (confirmationTurn env uid ul context ce store message)
                 = (if validEventData (eventDataOf ce None (finalLocation ce ul) uid) \<and> dbAccepts env (eventDataOf ce None (finalLocation ce ul) uid)
                    then store @ [newEvent (newObjectId store) uid (clock env) (eventDataOf ce None (finalLocation ce ul) uid)]
                    else store))
       \<and> eventDataOf ce None (finalLocation ce ul) uid
           = \<lparr> title = ce_title ce, category = None, startDate = None,
               location = orUndefined (finalLocation ce ul), mode = None, price = None,
               snippet = None, source = ''user_created'', sourceUrl = None,
               userId = Some uid \<rparr>
       \<and> newEvent (newObjectId store) uid (clock env) (eventDataOf ce None (finalLocation ce ul) uid)
           = \<lparr> ev_id = newObjectId store, ev_title = trim (ce_title ce), ev_category = None,
               ev_startDate = None,
               ev_location = map_option trim (orUndefined (finalLocation ce ul)),
               ev_mode = None, ev_price = None, ev_snippet = None,
               ev_source = ''user_created'', ev_sourceUrl = None, ev_userId = uid,
               ev_attendeesCount = 0,
               ev_createdAt = fst (clock env), ev_updatedAt = snd (clock env) \<rparr>"
proof -
  let ?t = "confirmationTurn env uid ul context ce store message"
  let ?d0 = "eventDataOf ce None (finalLocation ce ul) uid"
  let ?doc = "newEvent (newObjectId store) uid (clock env) (eventDataOf ce None (finalLocation ce ul) uid)"
  have rec: "?doc
           = \<lparr> ev_id = newObjectId store, ev_title = trim (ce_title ce), ev_category = None,
               ev_startDate = None,
               ev_location = map_option trim (orUndefined (finalLocation ce ul)),
               ev_mode = None, ev_price = None, ev_snippet = None,
               ev_source = ''user_created'', ev_sourceUrl = None, ev_userId = uid,
               ev_attendeesCount = 0,
               ev_createdAt = fst (clock env), ev_updatedAt = snd (clock env) \<rparr>"
    by (simp add: newEvent_def eventDataOf_def)
  have dat: "?d0 = \<lparr> title = ce_title ce, category = None, startDate = None,
               location = orUndefined (finalLocation ce ul), mode = None, price = None,
               snippet = None, source = ''user_created'', sourceUrl = None,
               userId = Some uid \<rparr>"
    by (simp add: eventDataOf_def)
  obtain ci ps where c: "classifyConfirmation (completion env) message = (ci, ps)"
    by (cases "classifyConfirmation (completion env) message")
  from assms(1) c consider
      (main) "ci = proceed"
    | (fallback) "ci = unclear" "finalFallbackNo (messageLowerFinal message)"
    by (auto simp: classifiedProceed_def)
  then have body:
    "(\<forall>d. CreateEvent d \<in> set (calls ?t) \<longrightarrow> d = ?d0)
     \<and> (stored ?t = store \<or> stored ?t = store @ [?doc])
     \<and> ((fst (classifyConfirmation (completion env) message) = proceed
            \<longrightarrow> \<not> timeWithoutDate env ce)
          \<longrightarrow> CreateEvent ?d0 \<in> set (calls ?t)
              \<and> stored ?t = (if validEventData ?d0 \<and> dbAccepts env ?d0
                             then store @ [?doc] else store))"
  proof cases
    case main
    then have t: "?t = proceedBranch env uid ul context ce store (map GenerateResponse ps)"
      using c confirmationTurn_proceed by simp
    show ?thesis
    proof (cases "timeWithoutDate env ce")
      case True
      from proceedBranch_crash [OF True, of uid ul "context" store "map GenerateResponse ps"]
      show ?thesis unfolding t using True main c no_CreateEvent_in_prompts by simp
    next
      case False
      from proceedBranch_runs [OF False, of uid ul "context" store "map GenerateResponse ps"]
      show ?thesis
        unfolding t using no_CreateEvent_in_prompts
        by (simp add: proceedData_without_date [OF assms(2)])
    qed
  next
    case fallback
    then have t: "?t = fallbackProceed env uid ul context ce store (map GenerateResponse ps)"
      using c confirmationTurn_fallback by simp
    from fallbackProceed_runs [of env uid ul "context" ce store "map GenerateResponse ps"]
    show ?thesis
      unfolding t using no_CreateEvent_in_prompts
      by (simp add: fallbackData_without_date [OF assms(2)])
  qed
  show ?thesis
    using body rec dat by blast
qed

text \<open>
  The amended claim at the message "not" with a language model that cannot be reached, for
  the draft that holds the time "18:00" and no date: the classification is unclear, the
  fall-back stores the event, without a date.
\<close>

theorem proceed_without_date_witness:
  "classifiedProceed (completion silentEnv) ''not''
   \<and> fst (finalEventDate silentEnv draftWithTime) = None
   \<and> fst (classifyConfirmation (completion silentEnv) ''not'') \<noteq> proceed
   \<and> timeWithoutDate silentEnv draftWithTime
   \<and> validEventData (eventDataOf draftWithTime None (finalLocation draftWithTime None) 7)
   \<and> dbAccepts silentEnv (eventDataOf draftWithTime None (finalLocation draftWithTime None) 7)
   \<and> stored (confirmationTurn silentEnv 7 None (exampleContext draftWithTime None) draftWithTime []
               ''not'')
       = [\<lparr> ev_id = 1, ev_title = ''Tech Summit 2025'', ev_category = None,
             ev_startDate = None, ev_location = None,
             ev_mode = None, ev_price = None, ev_snippet = None,
             ev_source = ''user_created'', ev_sourceUrl = None, ev_userId = 7,
             ev_attendeesCount = 0,
             ev_createdAt = fst exampleClock, ev_updatedAt = snd exampleClock \<rparr>]"
proof -
  have h1: "classifiedProceed (completion silentEnv) ''not''"
    by code_simp
  have h2: "fst (finalEventDate silentEnv draftWithTime) = None"
    by code_simp
  have h3: "fst (classifyConfirmation (completion silentEnv) ''not'') \<noteq> proceed
      \<and> timeWithoutDate silentEnv draftWithTime
      \<and> validEventData (eventDataOf draftWithTime None (finalLocation draftWithTime None) 7)
      \<and> dbAccepts silentEnv (eventDataOf draftWithTime None (finalLocation draftWithTime None) 7)"
    by code_simp
  have s: "stored (confirmationTurn silentEnv 7 None (exampleContext draftWithTime None) draftWithTime []
               ''not'')
       = [\<lparr> ev_id = 1, ev_title = ''Tech Summit 2025'', ev_category = None,
             ev_startDate = None, ev_location = None,
             ev_mode = None, ev_price = None, ev_snippet = None,
             ev_source = ''user_created'', ev_sourceUrl = None, ev_userId = 7,
             ev_attendeesCount = 0,
             ev_createdAt = fst exampleClock, ev_updatedAt = snd exampleClock \<rparr>]"
    by code_simp
  show ?thesis
    using h1 h2 h3 s
      proceed_without_date [OF h1 h2, of 7 None "exampleContext draftWithTime None" "[]"]
    by simp
qed

subsection \<open>C4: a stored time without a date\<close>

text \<open>
  Claim C4 says that a proceed turn with a stored time and no parseable date still
  completes. In the proceed branch it does not: line 330 calls \<^verbatim>\<open>setHours\<close> on
  \<^verbatim>\<open>null\<close>. At the draft with the time "18:00" and no date, the answer "yes" ends in
  status 500 after the time has been parsed; nothing is created and nothing is saved. The
  fall-back of the unclear branch guards the same step with \<^verbatim>\<open>&& finalEventDate\<close>
  (line 517): the message "not", with a language model that cannot be reached, stores the
  event of the same draft.
\<close>

theorem time_without_date_fails:
  "isWaiting (exampleContext draftWithTime None)
   \<and> classifyConfirmation (completion exampleEnv) ''yes'' = (proceed, [])
   \<and> fst (finalEventDate exampleEnv draftWithTime) = None
   \<and> chat exampleEnv 7 None (exampleContext draftWithTime None) [] ''yes''
       = Finished \<lparr> response = Status500, saved = None, stored = [],
                    calls = [ParseTimeWithAI ''18:00''] \<rparr>
   \<and> stored (confirmationTurn silentEnv 7 None (exampleContext draftWithTime None) draftWithTime []
               ''not'')
       = [newEvent 1 7 exampleClock (eventDataOf draftWithTime None None 7)]"
  by code_simp

subsection \<open>C5: the last event identifiers after a fall-back proceed\<close>

text \<open>
  Claim C5 says that after every persisted creation the draft is removed and the new
  identifier is put in front of \<^verbatim>\<open>lastEventIds\<close>, which never has more than five entries.
  The fall-back of the unclear branch (line 542) does not cut the list: with five
  identifiers stored, the message "not" and a language model that cannot be reached, the
  saved context holds six. The proceed branch cuts it (line 358): the message "yes"
  leaves five.
\<close>

theorem fallback_keeps_six_ids:
  "isWaiting (exampleContext exampleDraft (Some [5, 4, 3, 2, 1]))
   \<and> classifyConfirmation (completion silentEnv) ''not''
       = (unclear, [confirmationPrompt, directUnderstandingPrompt])
   \<and> saved (confirmationTurn silentEnv 7 None (exampleContext exampleDraft (Some [5, 4, 3, 2, 1]))
              exampleDraft fiveEvents ''not'')
       = Some \<lparr> creatingEvent = None, lastEventIds = Some [6, 5, 4, 3, 2, 1],
                 lastSearchQuery = None \<rparr>
   \<and> saved (confirmationTurn silentEnv 7 None (exampleContext exampleDraft (Some [5, 4, 3, 2, 1]))
              exampleDraft fiveEvents ''yes'')
       = Some \<lparr> creatingEvent = None, lastEventIds = Some [6, 5, 4, 3, 2],
                 lastSearchQuery = None \<rparr>"
  by code_simp

subsection \<open>C6: the edit branch leaves the draft waiting\<close>

text \<open>
  Claim C6 says that a turn classified as edit sets \<^verbatim>\<open>waitingForConfirmation\<close> to false
  before the reply is saved and returned. The edit branch (lines 448-471) changes nothing
  in the context: at the message "change the date", which the language model classifies
  as edit, the saved context is the context of the request, and its draft still waits.
\<close>

theorem edit_keeps_waiting:
  "classifyConfirmation (completion exampleEnv) ''change the date'' = (edit, [confirmationPrompt])
   \<and> chat exampleEnv 7 None (exampleContext exampleDraft None) [] ''change the date''
       = Finished \<lparr> response = Json editPrompt False,
                    saved = Some (exampleContext exampleDraft None),
                    stored = [],
                    calls = [GenerateResponse confirmationPrompt, GenerateResponse editPrompt,
                             SafeSaveConversation] \<rparr>
   \<and> waitingForConfirmation exampleDraft
   \<and> isWaiting (exampleContext exampleDraft None)"
  by code_simp

subsection \<open>C7: the location "TBD"\<close>

text \<open>
  Claim C7 says that no event is persisted with the location "TBD", by the discovery flow
  or by the creation flow. The creation flow stores the extracted location as it is
  (lines 337-343): at the draft whose extracted location is "TBD", the answer "yes" stores
  an event with that location. The discovery flow drops such a candidate (line 1225).
\<close>

theorem creation_stores_TBD:
  "isWaiting (exampleContext draftTBD None)
   \<and> stored (confirmationTurn exampleEnv 7 None (exampleContext draftTBD None) draftTBD [] ''yes'')
       = [\<lparr> ev_id = 1, ev_title = ''Tech Summit 2025'', ev_category = None,
             ev_startDate = None, ev_location = Some ''TBD'',
             ev_mode = None, ev_price = None, ev_snippet = None,
             ev_source = ''user_created'', ev_sourceUrl = None, ev_userId = 7,
             ev_attendeesCount = 0,
               ev_createdAt = fst exampleClock, ev_updatedAt = snd exampleClock \<rparr>]
   \<and> validatedEvents [(searchResult ''Tech Summit 2025'' ''https://techsummit.example'')
                         \<lparr> location := Some ''TBD'' \<rparr>] [0] = []"
  by code_simp

subsection \<open>C8: duplicates among the search results\<close>

text \<open>
  Claim C8 says that of two results of one batch whose titles have a similarity of at least
  0.9, the later one is discarded. The loop tests \<^verbatim>\<open>similarity > 0.9\<close> (line 1108): two
  titles of ten characters that differ in one have the similarity 0.9 exactly, and both
  results are kept.
\<close>

theorem similarity_090_kept_counterexample:
  "calculateSimilarity (titleKey (searchResult ''DevConf 25'' ''https://devconf.example/25''))
                       (titleKey (searchResult ''DevConf 26'' ''https://devconf.example/26''))
     \<ge> 9 / 10
   \<and> uniqueEvents [searchResult ''DevConf 25'' ''https://devconf.example/25'',
                    searchResult ''DevConf 26'' ''https://devconf.example/26'']
       = [searchResult ''DevConf 25'' ''https://devconf.example/25'',
          searchResult ''DevConf 26'' ''https://devconf.example/26'']"
  by code_simp

text \<open>
  Claim C8, amended. In the discovery flow a result is compared with the results kept
  before it, not with every earlier result. It is discarded exactly when it duplicates a
  kept one, and kept, after them, otherwise; so every result of the batch is kept or
  duplicates a kept result, and no kept result duplicates an earlier kept one. A result
  duplicates a kept one when their lower-cased, trimmed titles are equal, or their
  lower-cased, trimmed source URLs are equal and not empty, or the similarity of the two
  titles is strictly greater than 0.9.
\<close>

theorem duplicates_against_kept_results:
  "uniqueEvents [] = []
   \<and> uniqueEvents (events @ [event]) =
       (if \<exists>kept\<in>set (uniqueEvents events). duplicateOf event kept
        then uniqueEvents events
        else uniqueEvents events @ [event])
   \<and> (\<forall>x\<in>set events. x \<in> set (uniqueEvents events)
                        \<or> (\<exists>kept\<in>set (uniqueEvents events). duplicateOf x kept))
   \<and> (\<forall>i j. i < j \<and> j < length (uniqueEvents events) \<longrightarrow>
              \<not> duplicateOf (uniqueEvents events ! j) (uniqueEvents events ! i))
   \<and> (duplicateOf event kept \<longleftrightarrow>
         titleKey event = titleKey kept
         \<or> (\<exists>u. u \<noteq> [] \<and> urlKey event = Some u \<and> urlKey kept = Some u)
         \<or> calculateSimilarity (titleKey event) (titleKey kept) > 9 / 10)"
proof -
  have d: "duplicateOf event kept \<longleftrightarrow>
         titleKey event = titleKey kept
         \<or> (\<exists>u. u \<noteq> [] \<and> urlKey event = Some u \<and> urlKey kept = Some u)
         \<or> calculateSimilarity (titleKey event) (titleKey kept) > 9 / 10"
    by (auto simp: duplicateOf_def seenUrl_iff set_addUrl)
  show ?thesis
    using uniqueEvents_Nil uniqueEvents_snoc [of events event] uniqueEvents_covers [of _ events]
      uniqueEvents_pairwise [of _ _ events] d
    by blast
qed

text \<open>
  The amended claim at two results for "Tech Summit 2025", the second with an exclamation
  mark: the similarity is 16/17, and the second result is discarded. The titles are
  compared in lower case, also beyond ASCII: a result titled with the capitals C, A, F and
  U+00C9 is followed by one titled with the small letters, which is discarded as well.
\<close>

theorem duplicates_against_kept_results_witness:
  "duplicateOf (searchResult ''Tech Summit 2025!'' ''https://b.example/summit'')
               (searchResult ''Tech Summit 2025'' ''https://a.example/summit'')
   \<and> uniqueEvents [searchResult ''Tech Summit 2025'' ''https://a.example/summit'',
                    searchResult ''Tech Summit 2025!'' ''https://b.example/summit'']
       = [searchResult ''Tech Summit 2025'' ''https://a.example/summit'']
   \<and> uniqueEvents [searchResult [CHR ''C'', CHR ''A'', CHR ''F'', CHR 0xC9] ''https://a.example/cafe'',
                    searchResult [CHR ''c'', CHR ''a'', CHR ''f'', CHR 0xE9] ''https://b.example/cafe'']
       = [searchResult [CHR ''C'', CHR ''A'', CHR ''F'', CHR 0xC9] ''https://a.example/cafe'']"
proof -
  have l: "uniqueEvents [searchResult [CHR ''C'', CHR ''A'', CHR ''F'', CHR 0xC9] ''https://a.example/cafe'',
                    searchResult [CHR ''c'', CHR ''a'', CHR ''f'', CHR 0xE9] ''https://b.example/cafe'']
       = [searchResult [CHR ''C'', CHR ''A'', CHR ''F'', CHR 0xC9] ''https://a.example/cafe'']"
    by code_simp
  have u: "uniqueEvents [searchResult ''Tech Summit 2025'' ''https://a.example/summit'']
             = [searchResult ''Tech Summit 2025'' ''https://a.example/summit'']"
    by code_simp
  have d: "duplicateOf (searchResult ''Tech Summit 2025!'' ''https://b.example/summit'')
               (searchResult ''Tech Summit 2025'' ''https://a.example/summit'')"
    by code_simp
  show ?thesis
    using u d l duplicates_against_kept_results
        [of "[searchResult ''Tech Summit 2025'' ''https://a.example/summit'']"
            "searchResult ''Tech Summit 2025!'' ''https://b.example/summit''"]
    by simp
qed

subsection \<open>C9: a second registration\<close>

text \<open>
  Claim C9. For every pair of a user and an event with an existing registration, a second
  \<^verbatim>\<open>createRegistration\<close> for the pair returns the error
  "You are already registered for this event" and leaves the registrations unchanged: no
  second row is added and the existing row is not overwritten, whatever name and e-mail
  address the second attempt carries and whatever the database would answer to a write.
\<close>

theorem duplicate_registration_rejected:
  assumes "\<exists>r\<in>set registrations. reg_userId r = uid \<and> reg_eventId r = eid"
  shows "createRegistration dbSave stamps registrations uid eid name email
           = (Inl ''You are already registered for this event'', registrations)"
proof -
  from assms have "find (\<lambda>r. reg_userId r = uid \<and> reg_eventId r = eid) registrations \<noteq> None"
    unfolding find_None_iff by blast
  then show ?thesis
    by (auto simp: createRegistration_def)
qed

text \<open>
  The theorem at user 7 and event 1: the first call stores the registration, the second
  one, with another spelling of the name, is refused and changes nothing.
\<close>

theorem duplicate_registration_rejected_witness:
  "createRegistration (\<lambda>r. Saved) exampleClock [] 7 1 ''Ada Lovelace'' ''Ada@Example.org''
     = (Inr exampleRegistration, [exampleRegistration])
   \<and> (\<exists>r\<in>set [exampleRegistration]. reg_userId r = 7 \<and> reg_eventId r = 1)
   \<and> createRegistration (\<lambda>r. Saved) exampleClock [exampleRegistration] 7 1
       ''A. Lovelace'' ''ada@example.org''
     = (Inl ''You are already registered for this event'', [exampleRegistration])"
proof -
  have f: "createRegistration (\<lambda>r. Saved) exampleClock [] 7 1 ''Ada Lovelace'' ''Ada@Example.org''
     = (Inr exampleRegistration, [exampleRegistration])"
    by code_simp
  have h: "\<exists>r\<in>set [exampleRegistration]. reg_userId r = 7 \<and> reg_eventId r = 1"
    by (simp add: exampleRegistration_def)
  show ?thesis
    using f h duplicate_registration_rejected
        [OF h, of "\<lambda>r. Saved" exampleClock "''A. Lovelace''" "''ada@example.org''"]
    by simp
qed

subsection \<open>C10: the prefix "no " is decided by the token tier\<close>




end
